theory Spec2Isabelle
  imports Complex_Main
begin

section \<open>Python floats\<close>

text \<open>
  A Python \<open>float\<close> is an IEEE 754 binary64 number. A finite one is modelled by the
  real number it denotes; \<open>fl\<close> rounds a real number to the nearest one with a 53 bit
  significand, ties to the even significand, which is what a float literal (\<open>0.3\<close> is
  \<open>fl (3/10)\<close>), \<open>float(str)\<close> and every arithmetic operation do (\<open>fadd\<close>, \<open>fmul\<close>).
  The exponent range is not bounded: overflow to infinity and gradual underflow are
  left out, and no value of this development comes near either.
\<close>

definition rne :: "real \<Rightarrow> int" where
  "rne q = (let n = \<lfloor>q\<rfloor>; r = q - of_int n
            in if r < 1/2 then n else if r > 1/2 then n + 1
               else if even n then n else n + 1)"

lemma ceiling_half_less:
  fixes y :: real
  assumes "2 \<le> y"
  shows "nat \<lceil>y / 2\<rceil> < nat \<lceil>y\<rceil>"
proof -
  have "of_int \<lceil>y / 2\<rceil> < y / 2 + 1" by linarith
  also have "\<dots> \<le> y" using assms by simp
  also have "\<dots> \<le> of_int \<lceil>y\<rceil>" by linarith
  finally have "\<lceil>y / 2\<rceil> < \<lceil>y\<rceil>" by simp
  moreover have "0 < \<lceil>y\<rceil>" using assms by linarith
  ultimately show ?thesis by linarith
qed

lemma floor_half_less:
  fixes x :: real
  assumes "2 \<le> x"
  shows "nat \<lfloor>x / 2\<rfloor> < nat \<lfloor>x\<rfloor>"
proof -
  have "of_int \<lfloor>x / 2\<rfloor> \<le> x / 2" by linarith
  also have "\<dots> \<le> x - 1" using assms by simp
  also have "\<dots> < of_int \<lfloor>x\<rfloor>" by linarith
  finally have "\<lfloor>x / 2\<rfloor> < \<lfloor>x\<rfloor>" by simp
  moreover have "0 < \<lfloor>x\<rfloor>" using assms by linarith
  ultimately show ?thesis by linarith
qed

text \<open>
  Rounding a positive number to 53 significant bits: scale by powers of two into
  \<open>[2^52, 2^53)\<close>, round to the nearest integer there, scale back.
\<close>

function round53 :: "real \<Rightarrow> real" where
  "round53 x = (if x \<le> 0 then 0
                else if x < 2 ^ 52 then round53 (2 * x) / 2
                else if 2 ^ 53 \<le> x then 2 * round53 (x / 2)
                else of_int (rne x))"
  by pat_completeness auto
termination
proof (relation "measures [\<lambda>x. if x < 2 ^ 52 then nat \<lceil>2 ^ 53 / x\<rceil> else 0,
                           \<lambda>x. nat \<lfloor>x\<rfloor>]", goal_cases)
  case 1
  then show ?case by simp
next
  case (2 x)
  then have x: "0 < x" "x < 2 ^ 52" by simp_all
  have "2 * x \<le> 2 ^ 53" using x by simp
  then have "2 \<le> 2 ^ 53 / x" using x by (simp add: pos_le_divide_eq)
  from ceiling_half_less [OF this]
  have "nat \<lceil>2 ^ 53 / (2 * x)\<rceil> < nat \<lceil>2 ^ 53 / x\<rceil>"
    by (simp add: field_simps)
  moreover have "0 < nat \<lceil>2 ^ 53 / x\<rceil>" using x by simp
  ultimately show ?case using x by simp
next
  case (3 x)
  then have x: "(2::real) ^ 53 \<le> x" by simp
  then have "2 \<le> x" by simp
  from floor_half_less [OF this] show ?case using x by simp
qed

declare round53.simps [simp del]

definition fl :: "real \<Rightarrow> real" where
  "fl x = (if x < 0 then - round53 (- x) else round53 x)"

definition fadd :: "real \<Rightarrow> real \<Rightarrow> real" where
  "fadd a b = fl (a + b)"

definition fmul :: "real \<Rightarrow> real \<Rightarrow> real" where
  "fmul a b = fl (a * b)"

lemmas fl_eval = fl_def fadd_def fmul_def round53.simps rne_def Let_def

lemma fl_simple: "fl 0 = 0" "fl 1 = 1" "fl (1/2) = 1/2"
  by (simp_all add: fl_eval)

lemma rne_lower: "x - 1/2 \<le> of_int (rne x)"
proof -
  have "x - 1 < of_int \<lfloor>x\<rfloor>" by linarith
  then show ?thesis unfolding rne_def Let_def by (simp; linarith)
qed

text \<open>Rounding loses at most the relative error \<open>2^-53\<close>.\<close>

lemma round53_lower: "0 \<le> x \<Longrightarrow> x * (1 - 1 / 2 ^ 53) \<le> round53 x"
proof (induction x rule: round53.induct)
  case (1 x)
  show ?case
  proof (cases "x \<le> 0")
    case True
    with 1 show ?thesis by (simp add: round53.simps)
  next
    case pos: False
    show ?thesis
    proof (cases "x < 2 ^ 52")
      case True
      with pos 1 show ?thesis by (subst round53.simps) (simp add: field_simps)
    next
      case ge: False
      show ?thesis
      proof (cases "2 ^ 53 \<le> x")
        case True
        with pos ge 1 show ?thesis by (subst round53.simps) (simp add: field_simps)
      next
        case False
        have "2 ^ 52 * (1 / 2 ^ 53) \<le> x * (1 / 2 ^ 53)"
          using ge by (intro mult_right_mono) simp_all
        then have "1/2 \<le> x * (1 / 2 ^ 53)" by simp
        with rne_lower [of x] have "x * (1 - 1 / 2 ^ 53) \<le> of_int (rne x)"
          by (simp add: algebra_simps)
        with pos ge False show ?thesis by (subst round53.simps) simp
      qed
    qed
  qed
qed

lemma fl_lower: "0 \<le> x \<Longrightarrow> x * (1 - 1 / 2 ^ 53) \<le> fl x"
  using round53_lower [of x] by (simp add: fl_def)

section \<open>Receipt parser: \<open>backend/services/parser_service.py\<close>\<close>

datatype datetime = Datetime (year: int) (month: int) (day: int)

record item =
  description :: string
  price :: real

text \<open>
  The dictionary built by \<open>parse_receipt\<close>. A key whose value is \<open>None\<close> and a
  missing key are the same to \<open>dict.get\<close>, so each optional entry is an option.
\<close>

record parsed_data =
  date :: "datetime option"
  merchant :: "string option"
  total :: "real option"
  items :: "item list"
  payment_method :: "string option"
  raw_text :: string

text \<open>
  Python truth values: a \<open>datetime\<close> is always true, a string is true when it is not
  empty, a float when it is not zero, a list when it is not empty.
\<close>

definition truthy_date :: "datetime option \<Rightarrow> bool" where
  "truthy_date d = (d \<noteq> None)"

definition truthy_str :: "string option \<Rightarrow> bool" where
  "truthy_str s = (case s of None \<Rightarrow> False | Some v \<Rightarrow> v \<noteq> [])"

definition truthy_float :: "real option \<Rightarrow> bool" where
  "truthy_float t = (case t of None \<Rightarrow> False | Some v \<Rightarrow> v \<noteq> 0)"

definition calculate_confidence :: "parsed_data \<Rightarrow> real" where
  "calculate_confidence pd =
     (let confidence = fl 0;
          confidence = (if truthy_date (date pd)
                        then fadd confidence (fl (3/10)) else confidence);
          confidence = (if truthy_float (total pd) \<and> the (total pd) > 0
                        then fadd confidence (fl (4/10)) else confidence);
          confidence = (if truthy_str (merchant pd)
                        then fadd confidence (fl (2/10)) else confidence);
          confidence = (if items pd \<noteq> []
                        then fadd confidence (fl (1/10)) else confidence)
      in min confidence (fl 1))"

text \<open>
  The confidence as the specification words it, in exact arithmetic: the weighted sum
  of the four indicators, capped at 1.
\<close>

definition spec_confidence :: "parsed_data \<Rightarrow> real" where
  "spec_confidence pd =
     min ((if truthy_date (date pd) then 3/10 else 0)
          + (if truthy_float (total pd) \<and> the (total pd) > 0 then 4/10 else 0)
          + (if truthy_str (merchant pd) then 2/10 else 0)
          + (if items pd \<noteq> [] then 1/10 else 0)) 1"

text \<open>The running sum of \<open>calculate_confidence\<close> as a function of the four tests.\<close>

definition weigh :: "bool \<Rightarrow> bool \<Rightarrow> bool \<Rightarrow> bool \<Rightarrow> real" where
  "weigh d t m i =
     (let c = fl 0;
          c = (if d then fadd c (fl (3/10)) else c);
          c = (if t then fadd c (fl (4/10)) else c);
          c = (if m then fadd c (fl (2/10)) else c);
          c = (if i then fadd c (fl (1/10)) else c)
      in min c (fl 1))"

definition exact_weigh :: "bool \<Rightarrow> bool \<Rightarrow> bool \<Rightarrow> bool \<Rightarrow> real" where
  "exact_weigh d t m i =
     min ((if d then 3/10 else 0) + (if t then 4/10 else 0)
          + (if m then 2/10 else 0) + (if i then 1/10 else 0)) 1"

definition full_receipt :: parsed_data where
  "full_receipt = \<lparr>date = Some (Datetime 2024 1 15), merchant = Some ''WALMART'',
                    total = Some (11/2),
                    items = [\<lparr>description = ''MILK'', price = 5/2\<rparr>],
                    payment_method = None, raw_text = ''WALMART''\<rparr>"

lemma calculate_confidence_weigh:
  "calculate_confidence pd =
     weigh (truthy_date (date pd)) (truthy_float (total pd) \<and> the (total pd) > 0)
           (truthy_str (merchant pd)) (items pd \<noteq> [])"
  by (simp add: calculate_confidence_def weigh_def)

lemma spec_confidence_weigh:
  "spec_confidence pd =
     exact_weigh (truthy_date (date pd)) (truthy_float (total pd) \<and> the (total pd) > 0)
           (truthy_str (merchant pd)) (items pd \<noteq> [])"
  by (simp add: spec_confidence_def exact_weigh_def)

lemma weigh_all: "weigh True True True True = 1 - 1 / 2 ^ 53"
  unfolding weigh_def Let_def by (simp add: fl_eval)

lemma weigh_close: "\<bar>weigh d t m i - exact_weigh d t m i\<bar> \<le> 1 / 2 ^ 52"
  unfolding weigh_def exact_weigh_def Let_def
  by (cases d; cases t; cases m; cases i; simp only: if_True if_False)
     (simp_all add: fl_eval)

lemma weigh_range: "0 \<le> weigh d t m i \<and> weigh d t m i \<le> 1"
  unfolding weigh_def Let_def
  by (cases d; cases t; cases m; cases i; simp only: if_True if_False)
     (simp_all add: fl_eval)

lemma full_receipt_tests:
  "truthy_date (date full_receipt)" "truthy_float (total full_receipt)"
  "the (total full_receipt) > 0" "truthy_str (merchant full_receipt)"
  "items full_receipt \<noteq> []"
  by (simp_all add: full_receipt_def truthy_date_def truthy_float_def truthy_str_def)

text \<open>
  C8, as stated, fails: with date, total, merchant and items all present the score is
  the float \<open>0.9999999999999999\<close>, that is \<open>1 - 2^-53\<close>, and not \<open>1.0\<close>, while the
  exact weighted sum is 1.
\<close>

theorem calculate_confidence_full_not_one:
  "calculate_confidence full_receipt = 1 - 1 / 2 ^ 53
   \<and> calculate_confidence full_receipt \<noteq> 1
   \<and> spec_confidence full_receipt = 1"
proof -
  have "calculate_confidence full_receipt = 1 - 1 / 2 ^ 53"
    by (simp add: calculate_confidence_weigh full_receipt_tests weigh_all)
  moreover have "spec_confidence full_receipt = 1"
    by (simp add: spec_confidence_weigh full_receipt_tests exact_weigh_def)
  ultimately show ?thesis by simp
qed

text \<open>
  C8, amended: for every parsed receipt the score is the float sum of the weights of
  the fields found, accumulated in the order date, total, merchant, items and capped
  at 1.0; it lies in \<open>[0, 1]\<close> and within \<open>2^-52\<close> of the exact weighted sum
  \<open>0.3 [date] + 0.4 [total > 0] + 0.2 [merchant] + 0.1 [items]\<close> capped at 1, and
  when all four fields are found it is \<open>1 - 2^-53\<close>.
\<close>

theorem calculate_confidence_rounded:
  "calculate_confidence pd =
     weigh (truthy_date (date pd)) (truthy_float (total pd) \<and> the (total pd) > 0)
           (truthy_str (merchant pd)) (items pd \<noteq> [])
   \<and> \<bar>calculate_confidence pd - spec_confidence pd\<bar> \<le> 1 / 2 ^ 52
   \<and> 0 \<le> calculate_confidence pd \<and> calculate_confidence pd \<le> 1
   \<and> (truthy_date (date pd) \<and> truthy_float (total pd) \<and> the (total pd) > 0
        \<and> truthy_str (merchant pd) \<and> items pd \<noteq> []
      \<longrightarrow> calculate_confidence pd = 1 - 1 / 2 ^ 53)"
proof (intro conjI impI)
  show "\<bar>calculate_confidence pd - spec_confidence pd\<bar> \<le> 1 / 2 ^ 52"
    unfolding calculate_confidence_weigh spec_confidence_weigh by (rule weigh_close)
  show "0 \<le> calculate_confidence pd" "calculate_confidence pd \<le> 1"
    unfolding calculate_confidence_weigh using weigh_range by blast+
  show "calculate_confidence pd = 1 - 1 / 2 ^ 53"
    if "truthy_date (date pd) \<and> truthy_float (total pd) \<and> the (total pd) > 0
        \<and> truthy_str (merchant pd) \<and> items pd \<noteq> []"
    using that by (simp add: calculate_confidence_weigh weigh_all)
qed (rule calculate_confidence_weigh)

theorem calculate_confidence_rounded_witness:
  "truthy_date (date full_receipt) \<and> truthy_float (total full_receipt)
   \<and> the (total full_receipt) > 0 \<and> truthy_str (merchant full_receipt)
   \<and> items full_receipt \<noteq> []
   \<and> calculate_confidence full_receipt = 1 - 1 / 2 ^ 53"
  using calculate_confidence_rounded [of full_receipt] full_receipt_tests
  by blast

section \<open>Strings\<close>

text \<open>
  Texts are ASCII strings. \<open>str_lower\<close> and \<open>str_upper\<close> are \<open>str.lower\<close> and
  \<open>str.upper\<close>, \<open>contains k t\<close> is \<open>k in t\<close>, \<open>strip\<close> is \<open>str.strip\<close> (Python
  white space in ASCII: tab, line feed, vertical tab, form feed, carriage return,
  the separators 28 to 31 and the blank), \<open>join_sp\<close> is \<open>" ".join\<close>.
\<close>

definition upper_letters :: string where
  "upper_letters = ''ABCDEFGHIJKLMNOPQRSTUVWXYZ''"

definition lower_letters :: string where
  "lower_letters = ''abcdefghijklmnopqrstuvwxyz''"

definition lower_char :: "char \<Rightarrow> char" where
  "lower_char c = (case map_of (zip upper_letters lower_letters) c of
                     None \<Rightarrow> c | Some d \<Rightarrow> d)"


definition str_lower :: "string \<Rightarrow> string" where
  "str_lower s = map lower_char s"


definition is_space :: "char \<Rightarrow> bool" where
  "is_space c = (c \<in> set [CHR 0x09, CHR 0x0A, CHR 0x0B, CHR 0x0C, CHR 0x0D,
                            CHR 0x1C, CHR 0x1D, CHR 0x1E, CHR 0x1F, CHR '' ''])"

definition strip :: "string \<Rightarrow> string" where
  "strip s = rev (dropWhile is_space (rev (dropWhile is_space s)))"

fun startswith :: "string \<Rightarrow> string \<Rightarrow> bool" where
  "startswith t [] = True"
| "startswith [] (k # ks) = False"
| "startswith (c # cs) (k # ks) = (c = k \<and> startswith cs ks)"

fun contains :: "string \<Rightarrow> string \<Rightarrow> bool" where
  "contains k [] = (k = [])"
| "contains k (c # cs) = (startswith (c # cs) k \<or> contains k cs)"

fun join_sp :: "string list \<Rightarrow> string" where
  "join_sp [] = []"
| "join_sp [x] = x"
| "join_sp (x # y # ys) = x @ '' '' @ join_sp (y # ys)"

section \<open>Category table: \<open>backend/config/constants.py\<close>\<close>

text \<open>
  \<open>EXPENSE_CATEGORIES\<close> in the order of the dictionary literal, with the two entries
  of each category that the classifier copies into its \<open>category_map\<close>.
\<close>

record category_info =
  cat_name :: string
  cat_keywords :: "string list"

definition EXPENSE_CATEGORIES :: "(string \<times> category_info) list" where
  "EXPENSE_CATEGORIES =
    [(''food'', \<lparr>cat_name = ''Food & Dining'',
        cat_keywords = [''walmart'', ''target'', ''whole foods'', ''kroger'', ''safeway'',
                    ''restaurant'', ''bar'', ''cafe'', ''starbucks'', ''mcdonalds'',
                    ''subway'']\<rparr>),
     (''transportation'', \<lparr>cat_name = ''Transportation'',
        cat_keywords = [''gas'', ''shell'', ''chevron'', ''exxon'', ''bp'', ''metro'', ''bus'',
                    ''train'', ''uber'', ''lyft'', ''parking'']\<rparr>),
     (''housing'', \<lparr>cat_name = ''Housing'',
        cat_keywords = [''rent'', ''water'', ''electricity'', ''gas'', ''internet'', ''phone'',
                    ''at&t'', ''verizon'', ''comcast'']\<rparr>),
     (''health'', \<lparr>cat_name = ''Health & Fitness'',
        cat_keywords = [''pharmacy'', ''cvs'', ''walgreens'', ''doctor'', ''hospital'',
                    ''clinic'', ''gym'', ''fitness'', ''planet fitness'']\<rparr>),
     (''entertainment'', \<lparr>cat_name = ''Entertainment'',
        cat_keywords = [''cinema'', ''theater'', ''concert'', ''spotify'', ''netflix'', ''hulu'',
                    ''disney'', ''steam'', ''playstation'', ''xbox'']\<rparr>),
     (''shopping'', \<lparr>cat_name = ''Shopping'',
        cat_keywords = [''amazon'', ''ebay'', ''best buy'', ''target'', ''macy'', ''nordstrom'',
                    ''ikea'', ''home depot'']\<rparr>),
     (''education'', \<lparr>cat_name = ''Education'',
        cat_keywords = [''university'', ''college'', ''school'', ''course'', ''udemy'',
                    ''coursera'', ''book'', ''amazon books'']\<rparr>),
     (''other'', \<lparr>cat_name = ''Other'', cat_keywords = []\<rparr>)]"

section \<open>Classifier: \<open>backend/services/classifier_service.py\<close>\<close>

text \<open>
  \<open>_build_category_map\<close> copies name and keywords of every category, in order.
\<close>

definition build_category_map :: "(string \<times> category_info) list" where
  "build_category_map =
     map (\<lambda>(slug, info). (slug, \<lparr>cat_name = cat_name info, cat_keywords = cat_keywords info\<rparr>))
         EXPENSE_CATEGORIES"

text \<open>
  \<open>_create_default_model\<close>: the rows \<open>X_train\<close>, \<open>y_train\<close> it hands to the
  pipeline's \<open>fit\<close>, as a list of pairs (text, label).
\<close>

definition create_default_model ::
  "(string \<times> category_info) list \<Rightarrow> (string \<times> string) list" where
  "create_default_model category_map =
     concat (map (\<lambda>(category, info).
        concat (map (\<lambda>keyword. [(keyword, category),
                                  (''purchase at '' @ keyword, category)])
                    (cat_keywords info)))
        category_map)"

text \<open>
  \<open>create_synthetic_data\<close> of \<open>backend/ml/classifier/train.py\<close>, the training
  script's version of the same rows.
\<close>

definition create_synthetic_data :: "(string \<times> string) list" where
  "create_synthetic_data =
     concat (map (\<lambda>(category_slug, info).
        concat (map (\<lambda>keyword. [(str_lower keyword, category_slug),
                                  (str_lower (''purchase at '' @ keyword), category_slug),
                                  (str_lower (keyword @ '' store''), category_slug)])
                    (cat_keywords info)))
        EXPENSE_CATEGORIES)"

text \<open>
  The inner loop of \<open>_classify_by_rules\<close> over the keywords of one category, on the
  text already in lower case.
\<close>

definition count_matches :: "string \<Rightarrow> string list \<Rightarrow> nat" where
  "count_matches text kws =
     fold (\<lambda>keyword matches.
             if contains (str_lower keyword) text
             then (if str_lower keyword = strip text then matches + 3 else matches + 1)
             else matches)
          kws 0"

text \<open>The outer loop: the state is \<open>(best_category, max_matches)\<close>.\<close>

definition best_match ::
  "(string \<times> category_info) list \<Rightarrow> string \<Rightarrow> string option \<times> nat" where
  "best_match category_map text =
     fold (\<lambda>(category, info) (best_category, max_matches).
             let matches = count_matches text (cat_keywords info)
             in if matches > max_matches then (Some category, matches)
                else (best_category, max_matches))
          category_map (None, 0)"

definition rule_confidence :: "nat \<Rightarrow> real" where
  "rule_confidence max_matches =
     min (fadd (fl (1/2)) (fmul (fl (real max_matches)) (fl (2/10)))) (fl 1)"

definition classify_by_rules ::
  "(string \<times> category_info) list \<Rightarrow> string \<Rightarrow> string \<times> real" where
  "classify_by_rules category_map text0 =
     (let text = str_lower text0;
          (best_category, max_matches) = best_match category_map text
      in if truthy_str best_category \<and> max_matches > 0
         then (the best_category, rule_confidence max_matches)
         else (''others'', fl 0))"

text \<open>
  \<open>classify\<close>. The fitted pipeline is outside the repository: \<open>model\<close> is \<open>None\<close>
  when \<open>self.model\<close> is not set, and otherwise maps the combined text to the
  predicted label with its largest class probability, or to \<open>None\<close> when \<open>predict\<close>
  or \<open>predict_proba\<close> raises.
\<close>

definition classify ::
  "(string \<times> category_info) list \<Rightarrow> (string \<Rightarrow> (string \<times> real) option) option
   \<Rightarrow> string \<Rightarrow> string option \<Rightarrow> string option \<Rightarrow> string \<times> real" where
  "classify category_map model text merchant_arg description_arg =
     (let combined_text = join_sp (map the (filter truthy_str [Some text, merchant_arg, description_arg]));
          combined_text = str_lower combined_text;
          rule_based = classify_by_rules category_map combined_text
      in if snd rule_based > fl (8/10) then rule_based
         else case model of
           None \<Rightarrow> (if snd rule_based > 0 then rule_based else (''others'', fl (3/10)))
         | Some ml \<Rightarrow>
             (case ml combined_text of
                None \<Rightarrow> (if snd rule_based > 0 then rule_based else (''others'', fl (3/10)))
              | Some (prediction, confidence) \<Rightarrow>
                  if confidence < fl (1/2) \<and> snd rule_based > 0 then rule_based
                  else (prediction, confidence)))"


subsection \<open>The bootstrap training rows\<close>

definition all_keywords :: "(string \<times> category_info) list \<Rightarrow> string list" where
  "all_keywords category_map = concat (map (\<lambda>(category, info). cat_keywords info) category_map)"

lemma length_keyword_rows:
  "length (concat (map (\<lambda>keyword. [f keyword, g keyword]) kws)) = 2 * length kws"
  by (induction kws) simp_all

lemma length_create_default_model:
  "length (create_default_model cm) = 2 * length (all_keywords cm)"
  unfolding create_default_model_def all_keywords_def
  by (induction cm) (auto simp add: length_keyword_rows)

lemma default_rows_shape:
  "(x, y) \<in> set (create_default_model cm) \<Longrightarrow>
     \<exists>info k. (y, info) \<in> set cm \<and> k \<in> set (cat_keywords info)
        \<and> (x = k \<or> x = ''purchase at '' @ k)"
  unfolding create_default_model_def by auto

lemma keyword_count: "length (all_keywords build_category_map) = 66"
  by code_simp

lemma walmart_store_synthetic: "(''walmart store'', ''food'') \<in> set create_synthetic_data"
  by code_simp

lemma walmart_store_not_default:
  "(''walmart store'', ''food'') \<notin> set (create_default_model build_category_map)"
  by code_simp

text \<open>
  C6: the claim asks for three rows for every keyword, the keyword, \<open>purchase at X\<close> and
  \<open>X store\<close>. \<open>_create_default_model\<close> appends two: for the 66 keywords of the table
  it builds 132 rows, every row is a keyword or \<open>purchase at\<close> a keyword, and the row
  \<open>walmart store\<close> that \<open>create_synthetic_data\<close> of the training script has is not
  among them.
\<close>

theorem create_default_model_two_rows:
  "length (create_default_model cm) = 2 * length (all_keywords cm)
   \<and> length (create_default_model build_category_map) = 132
   \<and> (''walmart store'', ''food'') \<notin> set (create_default_model build_category_map)
   \<and> (''walmart store'', ''food'') \<in> set create_synthetic_data"
  by (simp add: length_create_default_model keyword_count walmart_store_synthetic
      walmart_store_not_default)

subsection \<open>The rule stage without a match\<close>

definition no_keyword_in :: "(string \<times> category_info) list \<Rightarrow> string \<Rightarrow> bool" where
  "no_keyword_in category_map text =
     list_all (\<lambda>(category, info).
        list_all (\<lambda>keyword. \<not> contains (str_lower keyword) text) (cat_keywords info))
        category_map"

lemma fold_no_match:
  "list_all (\<lambda>keyword. \<not> contains (str_lower keyword) text) kws \<Longrightarrow>
   fold (\<lambda>keyword matches.
             if contains (str_lower keyword) text
             then (if str_lower keyword = strip text then matches + 3 else matches + 1)
             else matches) kws acc = acc"
  by (induction kws arbitrary: acc) simp_all

lemma count_matches_zero:
  "list_all (\<lambda>keyword. \<not> contains (str_lower keyword) text) kws \<Longrightarrow>
   count_matches text kws = 0"
  unfolding count_matches_def by (rule fold_no_match)

lemma best_match_step_none:
  "list_all (\<lambda>(category, info).
        list_all (\<lambda>keyword. \<not> contains (str_lower keyword) text) (cat_keywords info)) cm \<Longrightarrow>
   fold (\<lambda>(category, info) (best_category, max_matches).
             let matches = count_matches text (cat_keywords info)
             in if matches > max_matches then (Some category, matches)
                else (best_category, max_matches)) cm st = st"
  by (induction cm arbitrary: st) (auto simp add: count_matches_zero)

lemma best_match_none: "no_keyword_in cm text \<Longrightarrow> best_match cm text = (None, 0)"
  unfolding no_keyword_in_def best_match_def by (rule best_match_step_none)

lemma classify_by_rules_none:
  "no_keyword_in cm (str_lower text) \<Longrightarrow> classify_by_rules cm text = (''others'', 0)"
  by (simp add: classify_by_rules_def best_match_none fl_simple)

lemma xyz_no_keyword: "no_keyword_in build_category_map (str_lower ''xyz'')"
  by code_simp

lemma slugs: "''others'' \<notin> set (map fst EXPENSE_CATEGORIES)"
  "''other'' \<in> set (map fst EXPENSE_CATEGORIES)"
  by code_simp+

text \<open>
  C4: for every text in which no keyword of the table occurs, the rule stage returns
  confidence 0, as claimed, but with the label \<open>others\<close>, which is not a slug of
  \<open>EXPENSE_CATEGORIES\<close>; the slug of the table is \<open>other\<close>.
\<close>

theorem classify_by_rules_others:
  "(no_keyword_in cm (str_lower text) \<longrightarrow> classify_by_rules cm text = (''others'', 0))
   \<and> ''others'' \<notin> set (map fst EXPENSE_CATEGORIES)
   \<and> ''other'' \<in> set (map fst EXPENSE_CATEGORIES)"
proof (intro conjI impI)
  assume "no_keyword_in cm (str_lower text)"
  then show "classify_by_rules cm text = (''others'', 0)"
    by (rule classify_by_rules_none)
qed (rule slugs)+

theorem classify_by_rules_others_witness:
  "no_keyword_in build_category_map (str_lower ''xyz'')
   \<and> classify_by_rules build_category_map ''xyz'' = (''others'', 0)
   \<and> ''others'' \<notin> set (map fst EXPENSE_CATEGORIES)"
  using classify_by_rules_others [of build_category_map "''xyz''"] xyz_no_keyword
  by blast


subsection \<open>The confidence of the rule stage\<close>

lemma fl_tenths:
  "fl (7/10) = 3152519739159347 / 4503599627370496"
  "fl (4/5) = 3602879701896397 / 4503599627370496"
  "fl (9/10) = 8106479329266893 / 9007199254740992"
  "fl (1/5) = 3602879701896397 / 18014398509481984"
  by (simp_all add: fl_eval)

lemma fl_ge: "0 \<le> c \<Longrightarrow> c \<le> x \<Longrightarrow> c * (1 - 1 / 2 ^ 53) \<le> fl x"
proof -
  assume c: "0 \<le> c" "c \<le> x"
  then have "c * (1 - 1 / 2 ^ 53) \<le> x * (1 - 1 / 2 ^ 53)"
    by (intro mult_right_mono) simp_all
  also have "\<dots> \<le> fl x" using c by (intro fl_lower) simp
  finally show ?thesis .
qed

lemma rule_confidence_1: "rule_confidence (Suc 0) = fl (7/10)"
  unfolding rule_confidence_def by (simp add: fl_eval)

lemma rule_confidence_2: "rule_confidence 2 = fl (9/10)"
  unfolding rule_confidence_def by (simp add: fl_eval)

lemma rule_confidence_ge3:
  assumes "3 \<le> n"
  shows "rule_confidence n = 1"
proof -
  have "(3::real) \<le> real n" using assms by simp
  from fl_ge [OF _ this] have a: "29/10 \<le> fl (real n)" by simp
  have "29/10 * (19/100) \<le> fl (real n) * fl (2/10)"
    using a by (intro mult_mono) (simp_all add: fl_tenths)
  then have "55/100 \<le> fl (real n) * fl (2/10)" by simp
  from fl_ge [OF _ this] have "54/100 \<le> fmul (fl (real n)) (fl (2/10))"
    by (simp add: fmul_def)
  then have "104/100 \<le> fl (1/2) + fmul (fl (real n)) (fl (2/10))"
    by (simp add: fl_simple)
  from fl_ge [OF _ this] have "1 \<le> fadd (fl (1/2)) (fmul (fl (real n)) (fl (2/10)))"
    by (simp add: fadd_def)
  then show ?thesis by (simp add: rule_confidence_def fl_simple)
qed

lemma rule_confidence_cases:
  assumes "0 < n"
  shows "fl (7/10) \<le> rule_confidence n \<and> 0 < rule_confidence n
         \<and> (fl (8/10) < rule_confidence n) = (2 \<le> n)"
proof -
  consider "n = 1" | "n = 2" | "3 \<le> n" using assms by linarith
  then show ?thesis
  proof cases
    case 1
    then show ?thesis by (simp add: rule_confidence_1 fl_tenths)
  next
    case 2
    then show ?thesis by (simp add: rule_confidence_2 fl_tenths)
  next
    case 3
    then show ?thesis by (simp add: rule_confidence_ge3 fl_tenths)
  qed
qed

text \<open>The match points behind a rule result: the state the outer loop ends in.\<close>

definition match_points :: "(string \<times> category_info) list \<Rightarrow> string \<Rightarrow> nat" where
  "match_points cm text =
     (let (best_category, max_matches) = best_match cm (str_lower text)
      in if truthy_str best_category then max_matches else 0)"

definition combine :: "string \<Rightarrow> string option \<Rightarrow> string option \<Rightarrow> string" where
  "combine text merchant_arg description_arg =
     str_lower (join_sp (map the (filter truthy_str [Some text, merchant_arg, description_arg])))"

lemma classify_by_rules_conf:
  "snd (classify_by_rules cm text) =
     (if 0 < match_points cm text then rule_confidence (match_points cm text) else 0)"
  by (auto simp add: classify_by_rules_def match_points_def fl_simple split: prod.splits)

lemma classify_short_circuit:
  "fl (8/10) < snd (classify_by_rules cm (combine text m d)) \<Longrightarrow>
   classify cm model text m d = classify_by_rules cm (combine text m d)"
  by (simp add: classify_def combine_def Let_def)

text \<open>
  C10: the confidence of the rule stage is 0 or at least the float 0.7 and then
  positive, so every non-zero rule result passes the \<open>rule_based[1] > 0\<close> test of the
  arbitration; it exceeds 0.8 exactly when the winning category has at least two
  match points, and then \<open>classify\<close> returns the rule result whatever the model says.
\<close>

theorem rule_confidence_gap:
  "(snd (classify_by_rules cm text) = 0
      \<or> fl (7/10) \<le> snd (classify_by_rules cm text) \<and> 0 < snd (classify_by_rules cm text))
   \<and> (fl (8/10) < snd (classify_by_rules cm text)) = (2 \<le> match_points cm text)
   \<and> (2 \<le> match_points cm (combine text m d) \<longrightarrow>
        classify cm model text m d = classify_by_rules cm (combine text m d))"
proof (intro conjI impI)
  show "snd (classify_by_rules cm text) = 0
      \<or> fl (7/10) \<le> snd (classify_by_rules cm text) \<and> 0 < snd (classify_by_rules cm text)"
    using rule_confidence_cases [of "match_points cm text"]
    by (simp add: classify_by_rules_conf)
  show gap: "(fl (8/10) < snd (classify_by_rules cm t)) = (2 \<le> match_points cm t)" for t
    using rule_confidence_cases [of "match_points cm t"]
    by (cases "0 < match_points cm t") (simp_all add: classify_by_rules_conf fl_tenths)
  show "classify cm model text m d = classify_by_rules cm (combine text m d)"
    if "2 \<le> match_points cm (combine text m d)"
    using that gap [of "combine text m d"] by (intro classify_short_circuit) simp
qed

lemma walmart_points: "match_points build_category_map (combine ''Walmart'' None None) = 3"
  by code_simp

theorem rule_confidence_gap_witness:
  "2 \<le> match_points build_category_map (combine ''Walmart'' None None)
   \<and> classify build_category_map None ''Walmart'' None None
       = classify_by_rules build_category_map (combine ''Walmart'' None None)
   \<and> snd (classify_by_rules build_category_map (combine ''Walmart'' None None)) = 1"
  using rule_confidence_gap [where ?cm = build_category_map and ?text = "''Walmart''"
      and ?m = None and ?d = None and ?model = None]
  by (simp add: walmart_points classify_by_rules_conf rule_confidence_ge3)



section \<open>Statistics of the numerical libraries\<close>

text \<open>
  \<open>numpy.mean\<close>, \<open>numpy.std\<close> (population standard deviation) and the least squares
  line that \<open>sklearn.linear_model.LinearRegression\<close> fits to the points
  \<open>(0, y\<^sub>0), (1, y\<^sub>1), \<dots>\<close> are libraries outside the repository. They are taken
  by their mathematical specification over the real numbers; rounding inside them is
  not modelled. With a single point the design matrix is constant and the minimum
  norm solution has slope 0.
\<close>

definition np_mean :: "real list \<Rightarrow> real" where
  "np_mean xs = sum_list xs / real (length xs)"

definition np_std :: "real list \<Rightarrow> real" where
  "np_std xs = sqrt (np_mean (map (\<lambda>x. (x - np_mean xs)\<^sup>2) xs))"

definition month_nums :: "nat \<Rightarrow> real list" where
  "month_nums n = map real [0..<n]"

definition fit :: "real list \<Rightarrow> real \<times> real" where
  "fit ys =
     (let xs = month_nums (length ys);
          xm = np_mean xs; ym = np_mean ys;
          sxx = sum_list (map (\<lambda>x. (x - xm)\<^sup>2) xs);
          sxy = sum_list (map (\<lambda>(x, y). (x - xm) * (y - ym)) (zip xs ys));
          coef = (if sxx = 0 then 0 else sxy / sxx)
      in (coef, ym - coef * xm))"

definition predict :: "real \<times> real \<Rightarrow> real \<Rightarrow> real" where
  "predict m x = fst m * x + snd m"

section \<open>Anomaly detection: \<open>backend/services/analytics_service.py\<close>\<close>


record anomaly =
  anomaly_expense_id :: int
  anomaly_date :: datetime
  anomaly_merchant :: "string option"
  anomaly_amount :: real
  anomaly_category :: string
  z_score :: real
  deviation :: real





section \<open>Forecasts: \<open>backend/services/prediction_service.py\<close>\<close>

text \<open>
  A row of the data frame handed to the service, with the columns \<open>date\<close>, \<open>amount\<close>
  and \<open>category\<close>.
\<close>

record row =
  row_date :: datetime
  row_amount :: real
  row_category :: string

definition month_index :: "datetime \<Rightarrow> int" where
  "month_index d = year d * 12 + (month d - 1)"

text \<open>
  \<open>groupby(pd.Grouper(key='date', freq='M'))['amount'].sum()\<close>: one bucket for every
  calendar month from the earliest to the latest date, in order, a month without rows
  with sum 0; no bucket for an empty frame.
\<close>

definition monthly_data :: "row list \<Rightarrow> (int \<times> real) list" where
  "monthly_data rows =
     (if rows = [] then []
      else let ms = map (\<lambda>r. month_index (row_date r)) rows;
               lo = fold min ms (hd ms); hi = fold max ms (hd ms)
           in map (\<lambda>k. (k, sum_list (map row_amount
                               (filter (\<lambda>r. month_index (row_date r) = k) rows))))
                  [lo..hi])"

definition PREDICTION_CONFIG_min_data_points :: nat where
  "PREDICTION_CONFIG_min_data_points = 30"

definition PREDICTION_CONFIG_confidence_interval :: real where
  "PREDICTION_CONFIG_confidence_interval = 95/100"

record forecast_point =
  forecast_month :: int
  predicted_amount :: real
  lower_bound :: real
  upper_bound :: real
  confidence :: real

datatype failure = Insufficient_data | Exception

text \<open>
  \<open>predict_future_expenses\<close>; the result is the list under \<open>"predictions"\<close> of a
  successful call, \<open>forecast_month\<close> being the month index that the source prints as
  \<open>%Y-%m\<close>. The fit raises on an empty frame and \<open>predict\<close> on an empty array of
  future months; the \<open>except\<close> clause turns both into an unsuccessful result.
\<close>

definition margin_of_error :: "real list \<Rightarrow> real" where
  "margin_of_error y =
     (let model = fit y;
          residuals = map (\<lambda>(x, v). v - predict model x) (zip (month_nums (length y)) y);
          std_error = np_std residuals;
          confidence = PREDICTION_CONFIG_confidence_interval;
          z_score = (if confidence = 95/100 then 196/100 else 2576/1000)
      in z_score * std_error)"

definition predict_future_expenses ::
  "row list \<Rightarrow> nat \<Rightarrow> string option \<Rightarrow> failure + forecast_point list" where
  "predict_future_expenses expenses_data periods category =
     (if length expenses_data < PREDICTION_CONFIG_min_data_points then Inl Insufficient_data
      else
        let expenses_data = (if truthy_str category
                             then filter (\<lambda>r. row_category r = the category) expenses_data
                             else expenses_data);
            monthly = monthly_data expenses_data;
            y = map snd monthly
        in if monthly = [] \<or> periods = 0 then Inl Exception
           else
             let model = fit y;
                 last_month = length monthly;
                 future_months = map (\<lambda>i. real (last_month + i)) [1..<periods + 1];
                 predictions = map (predict model) future_months;
                 margin = margin_of_error y;
                 base_date = fst (last monthly)
             in Inr (map (\<lambda>(i, pred).
                       \<lparr>forecast_month = base_date + int i,
                        predicted_amount = max 0 pred,
                        lower_bound = max 0 (pred - margin),
                        upper_bound = pred + margin,
                        confidence = PREDICTION_CONFIG_confidence_interval\<rparr>)
                     (zip [1..<periods + 1] predictions)))"



definition jan :: datetime where "jan = Datetime 2024 1 15"
definition feb :: datetime where "feb = Datetime 2024 2 15"
definition mar :: datetime where "mar = Datetime 2024 3 15"

definition rising :: "row list" where
  "rising = replicate 10 \<lparr>row_date = jan, row_amount = 10, row_category = ''food''\<rparr>
          @ replicate 10 \<lparr>row_date = feb, row_amount = 20, row_category = ''food''\<rparr>
          @ replicate 10 \<lparr>row_date = mar, row_amount = 30, row_category = ''food''\<rparr>"

definition falling :: "row list" where
  "falling = replicate 10 \<lparr>row_date = jan, row_amount = 30, row_category = ''food''\<rparr>
           @ replicate 10 \<lparr>row_date = feb, row_amount = 20, row_category = ''food''\<rparr>
           @ replicate 10 \<lparr>row_date = mar, row_amount = 10, row_category = ''food''\<rparr>"


subsection \<open>Forecast points\<close>

text \<open>
  The monthly series a call fits, the raw value of the fitted line at the \<open>i\<close>-th
  future month (the source asks for the months \<open>len + 1, len + 2, \<dots>\<close>), and the
  residuals of the fit.
\<close>

definition series :: "row list \<Rightarrow> string option \<Rightarrow> real list" where
  "series expenses_data category =
     map snd (monthly_data (if truthy_str category
                            then filter (\<lambda>r. row_category r = the category) expenses_data
                            else expenses_data))"

definition raw_prediction :: "real list \<Rightarrow> nat \<Rightarrow> real" where
  "raw_prediction y i = predict (fit y) (real (length y + Suc i))"

definition residuals :: "real list \<Rightarrow> real list" where
  "residuals y = map (\<lambda>(x, v). v - predict (fit y) x) (zip (month_nums (length y)) y)"




definition falling_forecast :: "forecast_point list" where
  "falling_forecast =
     [\<lparr>forecast_month = 24291, predicted_amount = 0, lower_bound = 0,
       upper_bound = -100, confidence = 95/100\<rparr>,
      \<lparr>forecast_month = 24292, predicted_amount = 0, lower_bound = 0,
       upper_bound = -200, confidence = 95/100\<rparr>,
      \<lparr>forecast_month = 24293, predicted_amount = 0, lower_bound = 0,
       upper_bound = -300, confidence = 95/100\<rparr>]"

lemma margin_of_error_residuals: "margin_of_error y = 196/100 * np_std (residuals y)"
  by (simp add: margin_of_error_def residuals_def PREDICTION_CONFIG_confidence_interval_def)

lemma enumerate_predictions:
  "map f (zip [1..<periods + 1] (map g (map h [1..<periods + 1])))
     = map (\<lambda>i. f (Suc i, g (h (Suc i)))) [0..<periods]"
proof -
  have e: "[1..<periods + 1] = map Suc [0..<periods]"
    by (simp add: map_Suc_upt)
  show ?thesis
    unfolding e by (simp add: zip_map_map zip_same_conv_map o_def)
qed

lemma predict_future_expenses_Inr:
  assumes "predict_future_expenses rows periods category = Inr preds"
  shows "preds = map (\<lambda>i. \<lparr>forecast_month = fst (last (monthly_data
                                 (if truthy_str category
                                  then filter (\<lambda>r. row_category r = the category) rows
                                  else rows))) + int (Suc i),
                 predicted_amount = max 0 (raw_prediction (series rows category) i),
                 lower_bound = max 0 (raw_prediction (series rows category) i
                                      - margin_of_error (series rows category)),
                 upper_bound = raw_prediction (series rows category) i
                               + margin_of_error (series rows category),
                 confidence = PREDICTION_CONFIG_confidence_interval\<rparr>) [0..<periods]"
proof -
  have ok: "\<not> length rows < PREDICTION_CONFIG_min_data_points"
    "\<not> (monthly_data (if truthy_str category
                       then filter (\<lambda>r. row_category r = the category) rows
                       else rows) = [] \<or> periods = 0)"
    using assms unfolding predict_future_expenses_def Let_def
    by (auto split: if_splits)
  have "Inr preds = predict_future_expenses rows periods category"
    using assms by simp
  also have "\<dots> = Inr (map (\<lambda>i. \<lparr>forecast_month = fst (last (monthly_data
                                 (if truthy_str category
                                  then filter (\<lambda>r. row_category r = the category) rows
                                  else rows))) + int (Suc i),
                 predicted_amount = max 0 (raw_prediction (series rows category) i),
                 lower_bound = max 0 (raw_prediction (series rows category) i
                                      - margin_of_error (series rows category)),
                 upper_bound = raw_prediction (series rows category) i
                               + margin_of_error (series rows category),
                 confidence = PREDICTION_CONFIG_confidence_interval\<rparr>) [0..<periods])"
    unfolding predict_future_expenses_def Let_def
    by (simp only: ok if_False enumerate_predictions series_def raw_prediction_def
        length_map prod.case)
  finally show ?thesis by simp
qed

lemma rising_facts:
  "length rising = 30" "monthly_data rising = [(24288, 100), (24289, 200), (24290, 300)]"
  "length falling = 30" "monthly_data falling = [(24288, 300), (24289, 200), (24290, 100)]"
  by (simp add: rising_def, code_simp, simp add: falling_def, code_simp)


lemma fit_falling: "fit [300, 200, 100] = (-100, 300)"
  unfolding fit_def Let_def month_nums_def np_mean_def
  by (simp add: upt_conv_Cons power2_eq_square)

lemma np_std_zeros: "np_std [0, 0, 0] = 0"
  unfolding np_std_def np_mean_def by simp


lemma margin_falling: "margin_of_error [300, 200, 100] = 0"
  unfolding margin_of_error_residuals residuals_def
  by (simp add: fit_falling predict_def month_nums_def upt_conv_Cons np_std_zeros)


lemma predict_falling: "predict_future_expenses falling 3 None = Inr falling_forecast"
  unfolding predict_future_expenses_def Let_def
  by (simp add: rising_facts truthy_str_def PREDICTION_CONFIG_min_data_points_def
      PREDICTION_CONFIG_confidence_interval_def fit_falling margin_falling predict_def
      upt_conv_Cons falling_forecast_def)




text \<open>
  Predicted amount and lower bound are clamped at 0 in every forecast point.
\<close>

lemma forecast_nonneg:
  assumes "predict_future_expenses rows periods category = Inr preds"
    and "p \<in> set preds"
  shows "0 \<le> predicted_amount p \<and> 0 \<le> lower_bound p"
  using assms(2) unfolding predict_future_expenses_Inr [OF assms(1)] by auto

text \<open>
  C2: for thirty rows whose monthly sums 300, 200, 100 fall by 100 a month, the fitted
  line is negative at the forecast months. Predicted amount and lower bound are
  clamped to 0, the upper bound is not: it is -100, -200, -300, below the lower
  bound.
\<close>

theorem forecast_upper_below_lower:
  "predict_future_expenses falling 3 None = Inr falling_forecast
   \<and> map predicted_amount falling_forecast = [0, 0, 0]
   \<and> map lower_bound falling_forecast = [0, 0, 0]
   \<and> map upper_bound falling_forecast = [-100, -200, -300]
   \<and> upper_bound (falling_forecast ! 0) < lower_bound (falling_forecast ! 0)"
  by (simp add: predict_falling falling_forecast_def)

subsection \<open>Trend\<close>










subsection \<open>Anomalies\<close>
















section \<open>Regular expressions\<close>

text \<open>
  The patterns of the parser are sequences of character classes, each with a greedy
  repetition \<open>{lo,hi}\<close> (\<open>hi = None\<close> for no upper limit), and one group. An atom is
  \<open>(class, lo, hi)\<close>. \<open>match_atoms\<close> is the backtracking match of Python's \<open>re\<close> at
  the start of a string: every atom takes as many characters as it can and gives
  characters back, one at a time, while the rest of the pattern fails. It returns the
  piece of text each atom matched.
\<close>

type_synonym atom = "(char \<Rightarrow> bool) \<times> nat \<times> nat option"

fun first_some :: "('a \<Rightarrow> 'b option) \<Rightarrow> 'a list \<Rightarrow> 'b option" where
  "first_some f [] = None"
| "first_some f (k # ks) = (case f k of Some r \<Rightarrow> Some r | None \<Rightarrow> first_some f ks)"

primrec match_atoms :: "atom list \<Rightarrow> string \<Rightarrow> string list option" where
  "match_atoms [] = (\<lambda>s. Some [])"
| "match_atoms (a # as) = (\<lambda>s.
     let run = length (takeWhile (fst a) s);
         most = (case snd (snd a) of None \<Rightarrow> run | Some hi \<Rightarrow> min hi run)
     in first_some (\<lambda>k. map_option (\<lambda>r. take k s # r) (match_atoms as (drop k s)))
                   (rev [fst (snd a)..<Suc most]))"

record pattern =
  atoms :: "atom list"
  group_start :: nat
  group_length :: nat

definition group1 :: "pattern \<Rightarrow> string list \<Rightarrow> string" where
  "group1 p pieces = concat (take (group_length p) (drop (group_start p) pieces))"

text \<open>
  \<open>re.finditer\<close>: the matches from left to right, each search starting where the
  match before ended (one character further after an empty match).
\<close>

function finditer :: "pattern \<Rightarrow> string \<Rightarrow> string list list" where
  "finditer p s =
     (if s = [] then (case match_atoms (atoms p) [] of Some ps \<Rightarrow> [ps] | None \<Rightarrow> [])
      else case match_atoms (atoms p) s of
             Some ps \<Rightarrow> ps # finditer p (drop (max 1 (length (concat ps))) s)
           | None \<Rightarrow> finditer p (tl s))"
  by pat_completeness auto
termination
  by (relation "measure (\<lambda>(p, s). length s)") auto

declare finditer.simps [simp del]

definition is_digit :: "char \<Rightarrow> bool" where
  "is_digit c = (c \<in> set ''0123456789'')"

definition ci :: "char \<Rightarrow> char \<Rightarrow> bool" where
  "ci k c = (lower_char c = lower_char k)"

definition lit :: "string \<Rightarrow> atom list" where
  "lit s = map (\<lambda>k. (ci k, 1, Some 1)) s"

definition amount_atoms :: "atom list" where
  "amount_atoms = [(is_digit, 1, None),
                   (\<lambda>c. c = CHR ''.'' \<or> c = CHR '','', 1, Some 1),
                   (is_digit, 2, Some 2)]"

text \<open>
  \<open>OCR_PATTERNS["total"]\<close> of \<open>backend/config/constants.py\<close>, compiled with
  \<open>re.IGNORECASE\<close>:
  \<^verbatim>\<open>total[:\s]+([0-9]+[.,][0-9]{2})\<close>, \<^verbatim>\<open>amount[:\s]+([0-9]+[.,][0-9]{2})\<close>,
  \<^verbatim>\<open>\$\s*([0-9]+[.,][0-9]{2})\<close> and \<^verbatim>\<open>([0-9]+[.,][0-9]{2})\s*\$\<close>.
\<close>

definition total_patterns :: "pattern list" where
  "total_patterns =
     [\<lparr>atoms = lit ''total'' @ [(\<lambda>c. c = CHR '':'' \<or> is_space c, 1, None)] @ amount_atoms,
       group_start = 6, group_length = 3\<rparr>,
      \<lparr>atoms = lit ''amount'' @ [(\<lambda>c. c = CHR '':'' \<or> is_space c, 1, None)] @ amount_atoms,
       group_start = 7, group_length = 3\<rparr>,
      \<lparr>atoms = [(\<lambda>c. c = CHR ''$'', 1, Some 1), (is_space, 0, None)] @ amount_atoms,
       group_start = 2, group_length = 3\<rparr>,
      \<lparr>atoms = amount_atoms @ [(is_space, 0, None), (\<lambda>c. c = CHR ''$'', 1, Some 1)],
       group_start = 0, group_length = 3\<rparr>]"

text \<open>
  The fallback \<^verbatim>\<open>E?\s*(\d+[.,]\d{2})\s*E?\<close>, where \<open>E\<close> stands for the euro sign. The
  euro sign is not an ASCII character, so in an ASCII text its two optional atoms
  match nothing.
\<close>

definition currency_pattern :: pattern where
  "currency_pattern =
     \<lparr>atoms = [(\<lambda>c. False, 0, Some 1), (is_space, 0, None)] @ amount_atoms
              @ [(is_space, 0, None), (\<lambda>c. False, 0, Some 1)],
      group_start = 2, group_length = 3\<rparr>"

section \<open>Receipt fields: \<open>backend/services/parser_service.py\<close>\<close>

text \<open>
  \<open>float(s)\<close> for the strings the patterns capture, digits, a point and digits: the
  float nearest to the decimal number. Any other string is a \<open>ValueError\<close>, \<open>None\<close>.
\<close>

definition digit_value :: "char \<Rightarrow> nat" where
  "digit_value c = length (takeWhile (\<lambda>d. d \<noteq> c) ''0123456789'')"

definition decimal :: "string \<Rightarrow> nat" where
  "decimal ds = fold (\<lambda>c n. 10 * n + digit_value c) ds 0"

definition py_float :: "string \<Rightarrow> real option" where
  "py_float s =
     (let whole = takeWhile is_digit s; rest = dropWhile is_digit s
      in if whole \<noteq> [] \<and> rest \<noteq> [] \<and> hd rest = CHR ''.'' \<and> tl rest \<noteq> []
            \<and> list_all is_digit (tl rest)
         then Some (fl (real (decimal whole)
                        + real (decimal (tl rest)) / 10 ^ length (tl rest)))
         else None)"

definition replace_comma :: "string \<Rightarrow> string" where
  "replace_comma s = map (\<lambda>c. if c = CHR '','' then CHR ''.'' else c) s"

text \<open>The candidates collected by the first loop of \<open>extract_total\<close>, as strings.\<close>

definition amount_strings :: "string \<Rightarrow> string list" where
  "amount_strings text =
     concat (map (\<lambda>p. map (\<lambda>m. replace_comma (group1 p m)) (finditer p text))
                 total_patterns)"

definition floats :: "string list \<Rightarrow> real list" where
  "floats strs = concat (map (\<lambda>s. case py_float s of Some a \<Rightarrow> [a] | None \<Rightarrow> []) strs)"

definition py_max :: "real list \<Rightarrow> real" where
  "py_max xs = fold max (tl xs) (hd xs)"

definition extract_total :: "string \<Rightarrow> real option" where
  "extract_total text =
     (let amounts = floats (amount_strings text)
      in if amounts \<noteq> [] then Some (py_max amounts)
         else let matches = map (group1 currency_pattern) (finditer currency_pattern text)
              in if matches \<noteq> []
                 then (if list_all (\<lambda>m. py_float (replace_comma m) \<noteq> None) matches
                       then Some (py_max (map (\<lambda>m. the (py_float (replace_comma m))) matches))
                       else None)
                 else None)"









definition two_totals :: string where
  "two_totals = ''Subtotal: 10.00'' @ [CHR 0x0A] @ ''Total: 12.50''"


subsection \<open>Total\<close>

definition currency_fallback :: "string \<Rightarrow> real option" where
  "currency_fallback text =
     (let matches = map (group1 currency_pattern) (finditer currency_pattern text)
      in if matches \<noteq> []
         then (if list_all (\<lambda>m. py_float (replace_comma m) \<noteq> None) matches
               then Some (py_max (map (\<lambda>m. the (py_float (replace_comma m))) matches))
               else None)
         else None)"

lemma py_max_Max: "xs \<noteq> [] \<Longrightarrow> py_max xs = Max (set xs)"
proof (cases xs)
  case Nil
  assume "xs \<noteq> []"
  with Nil show ?thesis by simp
next
  case (Cons a list)
  have "fold max list a = Max (set (a # list))"
    by (rule Max.set_eq_fold [symmetric])
  with Cons show ?thesis by (simp add: py_max_def)
qed

lemma extract_total_cases:
  "extract_total text =
     (if floats (amount_strings text) \<noteq> [] then Some (py_max (floats (amount_strings text)))
      else currency_fallback text)"
  by (simp add: extract_total_def currency_fallback_def Let_def)

lemma two_totals_strings: "amount_strings two_totals = [''10.00'', ''12.50'']"
  by code_simp

lemma py_float_examples: "py_float ''10.00'' = Some 10" "py_float ''12.50'' = Some (25/2)"
  unfolding py_float_def Let_def
  by (simp_all add: is_digit_def decimal_def digit_value_def fl_eval)

lemma two_totals_floats: "floats (amount_strings two_totals) = [10, 25/2]"
  by (simp add: two_totals_strings floats_def py_float_examples)

lemma comma_total: "amount_strings ''Total: 12,50'' = [''12.50'']"
  by code_simp

lemma comma_total_value: "extract_total ''Total: 12,50'' = Some (25/2)"
  by (simp add: extract_total_cases comma_total floats_def py_float_examples py_max_def)

lemma bare_amount: "amount_strings ''12.50'' = []"
  "map (group1 currency_pattern) (finditer currency_pattern ''12.50'') = [''12.50'']"
  "replace_comma ''12.50'' = ''12.50''"
  by code_simp+

text \<open>
  C9: when the total patterns yield candidates, \<open>extract_total\<close> returns the largest
  of them, each candidate being the float of the captured group with \<open>,\<close> replaced by
  \<open>.\<close>; the currency fallback decides the result only when they yield none. In the
  text \<open>Subtotal: 10.00\<close>, \<open>Total: 12.50\<close> the candidates are 10.0 (the first pattern
  matches inside \<open>Subtotal\<close>) and 12.5, and the result is 12.5; \<open>Total: 12,50\<close>
  gives 12.5 as well.
\<close>

theorem extract_total_max:
  "(floats (amount_strings text) \<noteq> [] \<longrightarrow>
      extract_total text = Some (Max (set (floats (amount_strings text)))))
   \<and> (floats (amount_strings text) = [] \<longrightarrow> extract_total text = currency_fallback text)
   \<and> floats (amount_strings two_totals) = [10, 25/2]
   \<and> extract_total two_totals = Some (25/2)
   \<and> extract_total ''Total: 12,50'' = Some (25/2)"
proof (intro conjI impI)
  assume "floats (amount_strings text) \<noteq> []"
  then show "extract_total text = Some (Max (set (floats (amount_strings text))))"
    by (simp add: extract_total_cases py_max_Max)
next
  assume "floats (amount_strings text) = []"
  then show "extract_total text = currency_fallback text"
    by (simp add: extract_total_cases)
next
  show "extract_total two_totals = Some (25/2)"
    by (simp add: extract_total_cases two_totals_floats py_max_def)
qed (rule two_totals_floats comma_total_value)+

theorem extract_total_max_witness:
  "floats (amount_strings two_totals) \<noteq> []
   \<and> extract_total two_totals = Some (Max (set (floats (amount_strings two_totals))))
   \<and> floats (amount_strings ''12.50'') = []
   \<and> extract_total ''12.50'' = currency_fallback ''12.50''
   \<and> currency_fallback ''12.50'' = Some (25/2)"
proof -
  have a: "floats (amount_strings two_totals) \<noteq> []"
    by (simp add: two_totals_floats)
  have b: "floats (amount_strings ''12.50'') = []"
    by (simp add: bare_amount floats_def)
  have c: "currency_fallback ''12.50'' = Some (25/2)"
    by (simp add: currency_fallback_def bare_amount py_float_examples py_max_def
        del: not_None_eq)
  from extract_total_max [of two_totals] extract_total_max [of "''12.50''"] a b c
  show ?thesis by blast
qed

subsection \<open>Merchant\<close>











end
